theory Spec2Isabelle
  imports Complex_Main
begin

section \<open>Numbers\<close>

text \<open>
  The engine of \<^verbatim>\<open>BlackScholes.py\<close> computes on Python floats. A finite float is
  idealised here as a real number, and the one rounding that the source writes out,
  \<^verbatim>\<open>float(np.format_float_positional(x, precision=10))\<close>, is modelled exactly. The doubles
  themselves are followed where they decide what the code does:
  \<^item> the guard of lines 59-60 and 75-76 compares a difference of two stored doubles with
    the double \<^verbatim>\<open>1e-10\<close>; its operands and its subtraction are rounded to binary64
    (\<open>float64\<close> below);
  \<^item> Python's float division raises on a zero divisor, and Python's float power raises
    when its result overflows the doubles.
  Otherwise the rounding error of the float operations is outside the model, and so is
  every property that depends on it. Where numpy continues with \<^verbatim>\<open>nan\<close>, \<^verbatim>\<open>inf\<close> or a
  signed zero (the logarithm of a non-positive number, the square root of a negative one,
  a division by a numpy zero), the model does not follow it: the value is \<open>Unknown\<close>,
  which says nothing about it, not even that it is not a number.
\<close>

text \<open>
  \<^verbatim>\<open>np.format_float_positional(x, precision=10)\<close> keeps at most 10 digits after the decimal
  point (\<^verbatim>\<open>fractional=True\<close> is the default) and rounds the digit it cuts at to nearest,
  a tie to the even digit.
\<close>

definition round_half_even :: "real \<Rightarrow> int" where
  "round_half_even x =
     (let f = \<lfloor>x\<rfloor>; d = x - of_int f
      in if d < 1 / 2 then f else if 1 / 2 < d then f + 1 else if even f then f else f + 1)"

definition format_float_positional :: "real \<Rightarrow> nat \<Rightarrow> real" where
  "format_float_positional x precision =
     of_int (round_half_even (x * 10 ^ precision)) / 10 ^ precision"

text \<open>The idiom of the source, \<^verbatim>\<open>float(np.format_float_positional(x, precision=10))\<close>.\<close>

definition hp :: "real \<Rightarrow> real" where
  "hp x = format_float_positional x 10"

text \<open>
  The double nearest to a real number, a tie to the even significand: 53 significant
  bits. The exponent is not bounded (no subnormal numbers, no overflow). Python parses a
  decimal string to the nearest double, and a double subtraction returns the double
  nearest to the exact difference.
\<close>

definition float64 :: "real \<Rightarrow> real" where
  "float64 x =
     (if x = 0 then 0
      else (let e = \<lfloor>log 2 \<bar>x\<bar>\<rfloor> - 52
            in of_int (round_half_even (x / 2 powr e)) * 2 powr e))"

text \<open>
  \<^verbatim>\<open>scipy.stats.norm\<close> is a library outside the repository. Its \<^verbatim>\<open>pdf\<close> is the density
  of the standard normal distribution. Its \<^verbatim>\<open>cdf\<close> is the distribution function: the
  antiderivative of the density that is \<open>1 / 2\<close> at \<open>0\<close>, written here as its power
  series around \<open>0\<close>, which converges everywhere. Section \<open>The normal distribution\<close>
  proves that it is this function: its derivative is the density, and it is symmetric.
\<close>

definition norm_pdf :: "real \<Rightarrow> real" where
  "norm_pdf x = exp (- (x\<^sup>2) / 2) / sqrt (2 * pi)"

definition cdf_coeff :: "nat \<Rightarrow> real" where
  "cdf_coeff n =
     (if even n then 0
      else (- 1) ^ ((n - 1) div 2) / (2 ^ ((n - 1) div 2) * fact ((n - 1) div 2) * of_nat n))"

definition gauss_primitive :: "real \<Rightarrow> real" where
  "gauss_primitive x = (\<Sum>n. cdf_coeff n * x ^ n)"

definition norm_cdf :: "real \<Rightarrow> real" where
  "norm_cdf x = 1 / 2 + gauss_primitive x / sqrt (2 * pi)"

section \<open>The valuation object\<close>

text \<open>What \<^verbatim>\<open>calculate_prices\<close> can raise: line 35 divides two Python floats, line 36
  squares one.\<close>

datatype error = ZeroDivisionError | OverflowError

text \<open>A float that may be \<^verbatim>\<open>float('inf')\<close>.\<close>

datatype pyfloat = Fin real | PosInf

text \<open>A computed float: a real number, or a value that the model does not follow.\<close>

datatype 'a computed = Known 'a | Unknown

text \<open>The attributes that \<^verbatim>\<open>__init__\<close> sets.\<close>

record BlackScholes =
  time_to_maturity :: real
  strike :: real
  current_price :: real
  volatility :: real
  interest_rate :: real
  call_purchase_price :: "real option"
  put_purchase_price :: "real option"
  purchase_time_to_maturity :: real

text \<open>Python's \<^verbatim>\<open>x or d\<close> on an optional float: \<^verbatim>\<open>None\<close> and \<^verbatim>\<open>0.0\<close> are both false.\<close>

definition py_or :: "real option \<Rightarrow> real \<Rightarrow> real" where
  "py_or x d = (case x of None \<Rightarrow> d | Some v \<Rightarrow> if v = 0 then d else v)"

definition init ::
  "real \<Rightarrow> real \<Rightarrow> real \<Rightarrow> real \<Rightarrow> real \<Rightarrow> real option \<Rightarrow> real option \<Rightarrow> real option
     \<Rightarrow> BlackScholes" where
  "init time_to_maturity' strike' current_price' volatility' interest_rate'
        call_purchase_price' put_purchase_price' purchase_time_to_maturity' =
     \<lparr> time_to_maturity = hp time_to_maturity',
       strike = hp strike',
       current_price = hp current_price',
       volatility = hp volatility',
       interest_rate = hp interest_rate',
       call_purchase_price = map_option hp call_purchase_price',
       put_purchase_price = map_option hp put_purchase_price',
       purchase_time_to_maturity = hp (py_or purchase_time_to_maturity' time_to_maturity') \<rparr>"

text \<open>The attributes that \<^verbatim>\<open>calculate_prices\<close> sets; it returns the first two.\<close>

record prices =
  call_price :: "real computed"
  put_price :: "real computed"
  call_pnl :: "real computed"
  call_pnl_percentage :: "real computed"
  put_pnl :: "real computed"
  put_pnl_percentage :: "real computed"
  call_delta :: "real computed"
  put_delta :: "real computed"
  gamma :: "real computed"

text \<open>
  Python's \<^verbatim>\<open>a / b\<close> on floats raises on a zero divisor. Python's \<^verbatim>\<open>x ** n\<close> on a float
  raises when the result overflows: when it rounds to a double beyond the largest one,
  \<open>2 ^ 1024 - 2 ^ 971\<close>, that is from \<open>2 ^ 1024 - 2 ^ 970\<close> on. For a double \<open>x\<close> and
  \<open>n = 2\<close> this is \<open>2 ^ 512 \<le> \<bar>x\<bar>\<close>, about \<open>1.34e154\<close>.
\<close>

definition overflow_threshold :: real where
  "overflow_threshold = 2 ^ 1024 - 2 ^ 970"

definition py_truediv :: "real \<Rightarrow> real \<Rightarrow> error + real" where
  "py_truediv a b = (if b = 0 then Inl ZeroDivisionError else Inr (a / b))"

definition py_pow :: "real \<Rightarrow> nat \<Rightarrow> error + real" where
  "py_pow x n = (if overflow_threshold \<le> \<bar>x ^ n\<bar> then Inl OverflowError else Inr (x ^ n))"

text \<open>
  Lines 34-39 on real numbers. numpy's \<^verbatim>\<open>log\<close>, \<^verbatim>\<open>sqrt\<close> and division stay within the
  real numbers exactly when spot over strike is positive, the maturity is positive and
  the volatility is not zero.
\<close>

definition numpy_finite :: "BlackScholes \<Rightarrow> bool" where
  "numpy_finite bs \<longleftrightarrow>
     0 < current_price bs / strike bs \<and> 0 < time_to_maturity bs \<and> volatility bs \<noteq> 0"

definition d1 :: "BlackScholes \<Rightarrow> real" where
  "d1 bs =
     (ln (current_price bs / strike bs)
        + (interest_rate bs + 0.5 * (volatility bs)\<^sup>2) * time_to_maturity bs)
     / (volatility bs * sqrt (time_to_maturity bs))"

definition d2 :: "BlackScholes \<Rightarrow> real" where
  "d2 bs = d1 bs - volatility bs * sqrt (time_to_maturity bs)"

text \<open>The unrounded prices, the arguments of the two roundings.\<close>

definition call_value :: "BlackScholes \<Rightarrow> real" where
  "call_value bs =
     current_price bs * norm_cdf (d1 bs)
       - strike bs * exp (- interest_rate bs * time_to_maturity bs) * norm_cdf (d2 bs)"

definition put_value :: "BlackScholes \<Rightarrow> real" where
  "put_value bs =
     strike bs * exp (- interest_rate bs * time_to_maturity bs) * norm_cdf (- d2 bs)
       - current_price bs * norm_cdf (- d1 bs)"

text \<open>
  The guard of lines 59-60 and 75-76, on the stored doubles: the second conjunct compares
  the spot with itself.
\<close>

definition short_circuit :: "BlackScholes \<Rightarrow> bool" where
  "short_circuit bs \<longleftrightarrow>
     \<bar>float64 (float64 (time_to_maturity bs) - float64 (purchase_time_to_maturity bs))\<bar>
         < float64 (1 / 10 ^ 10)
       \<and> \<bar>float64 (float64 (current_price bs) - float64 (current_price bs))\<bar>
         < float64 (1 / 10 ^ 10)"

text \<open>One leg of lines 58-88: the pair (PnL, PnL percentage).\<close>

definition pnl_leg ::
  "BlackScholes \<Rightarrow> real computed \<Rightarrow> real option \<Rightarrow> real computed \<times> real computed" where
  "pnl_leg bs price purchase_price =
     (case purchase_price of
        Some p \<Rightarrow>
          if short_circuit bs then (Known 0, Known 0)
          else (let pnl = map_computed (\<lambda>c. hp (c - p)) price
                in (pnl,
                    if p \<noteq> 0 then map_computed (\<lambda>x. hp (x / p * 100)) pnl else Known (hp 0)))
      | None \<Rightarrow> (Known 0, Known 0))"

text \<open>Lines 41-95: the attributes set from the object \<open>bs\<close>.\<close>

definition calculate_prices_body :: "BlackScholes \<Rightarrow> prices" where
  "calculate_prices_body bs =
     (let call_price' = (if numpy_finite bs then Known (hp (call_value bs)) else Unknown);
          put_price' = (if numpy_finite bs then Known (hp (put_value bs)) else Unknown);
          (call_pnl', call_pnl_percentage') = pnl_leg bs call_price' (call_purchase_price bs);
          (put_pnl', put_pnl_percentage') = pnl_leg bs put_price' (put_purchase_price bs)
      in \<lparr> call_price = call_price',
           put_price = put_price',
           call_pnl = call_pnl',
           call_pnl_percentage = call_pnl_percentage',
           put_pnl = put_pnl',
           put_pnl_percentage = put_pnl_percentage',
           call_delta = (if numpy_finite bs then Known (norm_cdf (d1 bs)) else Unknown),
           put_delta = (if numpy_finite bs then Known (- norm_cdf (- d1 bs)) else Unknown),
           gamma =
             (if numpy_finite bs
              then Known (norm_pdf (d1 bs)
                / (current_price bs * volatility bs * sqrt (time_to_maturity bs)))
              else Unknown) \<rparr>)"

text \<open>
  \<^verbatim>\<open>calculate_prices\<close>: the quotient of line 35 and the square of line 36 are the two
  Python float operations that can raise, in this order; everything after them is numpy's
  and returns.
\<close>

definition calculate_prices :: "BlackScholes \<Rightarrow> error + prices" where
  "calculate_prices bs =
     (case py_truediv (current_price bs) (strike bs) of
        Inl e \<Rightarrow> Inl e
      | Inr ratio \<Rightarrow>
          (case py_pow (volatility bs) 2 of
             Inl e \<Rightarrow> Inl e
           | Inr volatility_squared \<Rightarrow> Inr (calculate_prices_body bs)))"

record risk_metrics =
  max_call_loss :: real
  max_put_loss :: real
  max_call_gain :: pyfloat
  max_put_gain :: real
  call_breakeven :: real
  put_breakeven :: real

definition calculate_risk_metrics :: "BlackScholes \<Rightarrow> risk_metrics" where
  "calculate_risk_metrics bs =
     \<lparr> max_call_loss = hp (case call_purchase_price bs of Some p \<Rightarrow> \<bar>p\<bar> | None \<Rightarrow> 0),
       max_put_loss = hp (case put_purchase_price bs of Some p \<Rightarrow> \<bar>p\<bar> | None \<Rightarrow> 0),
       max_call_gain = (case call_purchase_price bs of Some p \<Rightarrow> PosInf | None \<Rightarrow> Fin 0),
       max_put_gain =
         (case put_purchase_price bs of Some p \<Rightarrow> hp (strike bs - p) | None \<Rightarrow> 0),
       call_breakeven = hp (strike bs + py_or (call_purchase_price bs) 0),
       put_breakeven = hp (strike bs - py_or (put_purchase_price bs) 0) \<rparr>"

section \<open>Requests\<close>

text \<open>The first fixture of the repository's test class, \<^verbatim>\<open>bs_atm\<close>.\<close>

definition bs_atm :: BlackScholes where
  "bs_atm = init 1 100 100 0.2 0.05 (Some 8) (Some 6) None"

text \<open>
  The same position bought half a year earlier; the same position with no purchase
  prices; and a position whose maturity at purchase is one unit of the tenth decimal
  away from the maturity.
\<close>

definition bs_held :: BlackScholes where
  "bs_held = init 1 100 100 0.2 0.05 (Some 8) (Some 6) (Some 1.5)"

definition bs_flat :: BlackScholes where
  "bs_flat = init 1 100 100 0.2 0.05 None None None"

definition bs_edge :: BlackScholes where
  "bs_edge = init 0.1 100 100 0.2 0.05 (Some 8) (Some 6) (Some 0.1000000001)"

text \<open>
  Requests outside the domain of the formula: a negative volatility, a zero maturity, a
  zero strike, and a negative volatility whose square overflows.
\<close>

definition bs_negative_volatility :: BlackScholes where
  "bs_negative_volatility = init 1 100 100 (- 0.2) 0.05 None None None"

definition bs_expired :: BlackScholes where
  "bs_expired = init 0 100 100 0.2 0.05 None None None"




definition bs_large :: BlackScholes where
  "bs_large = init 1 1000000000000 1000000000000 1 0.05 None None None"




text \<open>The odd terms of the series of \<open>gauss_primitive\<close>.\<close>

definition gauss_term :: "real \<Rightarrow> nat \<Rightarrow> real" where
  "gauss_term x m = (- 1) ^ m * x ^ (2 * m + 1) / (2 ^ m * fact m * of_nat (2 * m + 1))"

section \<open>Rounding\<close>

lemma round_half_even_of_int: "round_half_even (of_int k) = k"
  by (simp add: round_half_even_def)

lemma round_half_even_bounds:
  "x - 1 / 2 \<le> of_int (round_half_even x)" "of_int (round_half_even x) \<le> x + 1 / 2"
  unfolding round_half_even_def Let_def by (auto; linarith)+

lemma round_half_even_mono:
  assumes "x \<le> y"
  shows "round_half_even x \<le> round_half_even y"
proof (cases "\<lfloor>x\<rfloor> = \<lfloor>y\<rfloor>")
  case True
  then show ?thesis
    using assms unfolding round_half_even_def Let_def by auto
next
  case False
  then have "\<lfloor>x\<rfloor> + 1 \<le> \<lfloor>y\<rfloor>"
    using assms floor_mono [of x y] by linarith
  moreover have "round_half_even x \<le> \<lfloor>x\<rfloor> + 1"
    unfolding round_half_even_def Let_def by auto
  moreover have "\<lfloor>y\<rfloor> \<le> round_half_even y"
    unfolding round_half_even_def Let_def by auto
  ultimately show ?thesis by linarith
qed

lemma hp_of_int_div: "hp (of_int k / 10 ^ 10) = of_int k / 10 ^ 10"
  by (simp add: hp_def format_float_positional_def round_half_even_of_int)

lemma hp_eq_of_int: "hp x = of_int (round_half_even (x * 10 ^ 10)) / 10 ^ 10"
  by (simp add: hp_def format_float_positional_def)

lemma hp_idem: "hp (hp x) = hp x"
  by (metis hp_eq_of_int hp_of_int_div)

lemma hp_zero: "hp 0 = 0"
  using hp_of_int_div [of 0] by simp

lemma hp_minus_hp: "hp (hp x - hp y) = hp x - hp y"
proof -
  have "hp x - hp y
      = of_int (round_half_even (x * 10 ^ 10) - round_half_even (y * 10 ^ 10)) / 10 ^ 10"
    by (simp add: hp_eq_of_int diff_divide_distrib)
  then show ?thesis
    by (simp only: hp_of_int_div)
qed

lemma hp_plus_hp: "hp (hp x + hp y) = hp x + hp y"
proof -
  have "hp x + hp y
      = of_int (round_half_even (x * 10 ^ 10) + round_half_even (y * 10 ^ 10)) / 10 ^ 10"
    by (simp add: hp_eq_of_int add_divide_distrib)
  then show ?thesis
    by (simp only: hp_of_int_div)
qed

lemma hp_abs_hp: "hp \<bar>hp x\<bar> = \<bar>hp x\<bar>"
proof -
  have "\<bar>hp x\<bar> = of_int \<bar>round_half_even (x * 10 ^ 10)\<bar> / 10 ^ 10"
    by (simp add: hp_eq_of_int)
  then show ?thesis
    by (simp only: hp_of_int_div)
qed

lemma hp_mono: "x \<le> y \<Longrightarrow> hp x \<le> hp y"
  by (simp add: hp_eq_of_int divide_right_mono round_half_even_mono)


lemma hp_of_int: "hp (of_int k) = of_int k"
proof -
  have "real_of_int (k * 10 ^ 10) / 10 ^ 10 = of_int k"
    by simp
  then show ?thesis
    using hp_of_int_div [of "k * 10 ^ 10"] by (simp only:)
qed

lemma hp_int_numeral [simp]:
  "hp (numeral n) = numeral n" "hp 1 = 1" "hp (- numeral n) = - numeral n"
  using hp_of_int [of "numeral n"] hp_of_int [of 1] hp_of_int [of "- numeral n"]
  by simp_all

lemma hp_fractions [simp]:
  "hp (1 / 5) = 1 / 5" "hp (1 / 20) = 1 / 20" "hp (3 / 2) = 3 / 2" "hp (- (1 / 5)) = - (1 / 5)"
  using hp_of_int_div [of 2000000000] hp_of_int_div [of 500000000]
    hp_of_int_div [of 15000000000] hp_of_int_div [of "- 2000000000"]
  by simp_all


section \<open>Doubles\<close>

lemma float64_zero: "float64 0 = 0"
  by (simp add: float64_def)

lemma float64_error:
  assumes "x \<noteq> 0"
  shows "\<bar>float64 x - x\<bar> \<le> \<bar>x\<bar> / 2 ^ 53"
proof -
  define k where "k = \<lfloor>log 2 \<bar>x\<bar>\<rfloor>"
  define s :: real where "s = 2 powr (of_int k - 52)"
  have s: "0 < s"
    by (simp add: s_def)
  have "2 powr of_int k \<le> \<bar>x\<bar>"
    using floor_log_eq_powr_iff [of "\<bar>x\<bar>" 2 k] assms by (simp add: k_def)
  moreover have "s = 2 powr of_int k / 2 ^ 52"
    by (simp add: s_def powr_diff)
  ultimately have half: "s / 2 \<le> \<bar>x\<bar> / 2 ^ 53"
    by (simp add: field_simps)
  define r where "r = real_of_int (round_half_even (x / s))"
  have "\<bar>r - x / s\<bar> \<le> 1 / 2"
    unfolding r_def using round_half_even_bounds [of "x / s"] by linarith
  then have "\<bar>r - x / s\<bar> * s \<le> 1 / 2 * s"
    using s by (intro mult_right_mono) simp_all
  moreover have "\<bar>r - x / s\<bar> * s = \<bar>r * s - x\<bar>"
  proof -
    have "\<bar>r - x / s\<bar> * s = \<bar>(r - x / s) * s\<bar>"
      using s by (simp add: abs_mult)
    also have "(r - x / s) * s = r * s - x"
      using s by (simp add: field_simps)
    finally show ?thesis .
  qed
  moreover have "float64 x = r * s"
    using assms by (simp add: float64_def Let_def r_def s_def k_def)
  ultimately show ?thesis
    using half by simp
qed

lemma float64_pos: "0 < x \<Longrightarrow> 0 < float64 x"
proof -
  assume x: "0 < x"
  then have "\<bar>float64 x - x\<bar> \<le> x / 2 ^ 53"
    using float64_error [of x] by simp
  moreover have "x / 2 ^ 53 < x"
    using x by (simp add: field_simps)
  ultimately show ?thesis
    by linarith
qed



section \<open>The normal distribution\<close>

lemma cdf_coeff_odd_term:
  "cdf_coeff n * x ^ n = (if even n then 0 else gauss_term x ((n - 1) div 2))"
proof (cases "even n")
  case True
  then show ?thesis by (simp add: cdf_coeff_def)
next
  case False
  then obtain m where n: "n = 2 * m + 1"
    by (auto elim: oddE)
  show ?thesis
    by (simp add: n cdf_coeff_def gauss_term_def)
qed

lemma summable_gauss_term: "summable (gauss_term x)"
proof (rule summable_comparison_test' [where N = 0])
  show "summable (\<lambda>m. \<bar>x\<bar> * (inverse (fact m) * (x\<^sup>2 / 2) ^ m))"
    by (rule summable_mult) (rule summable_exp)
next
  fix m :: nat
  have "norm (gauss_term x m) = \<bar>x\<bar> * ((x\<^sup>2) ^ m / (2 ^ m * fact m)) / real (2 * m + 1)"
    by (simp add: gauss_term_def abs_mult power_abs power_mult del: of_nat_add of_nat_mult)
  also have "\<dots> \<le> \<bar>x\<bar> * ((x\<^sup>2) ^ m / (2 ^ m * fact m)) / 1"
    by (rule divide_left_mono) (simp_all)
  also have "\<dots> = \<bar>x\<bar> * (inverse (fact m) * (x\<^sup>2 / 2) ^ m)"
    by (simp add: field_simps)
  finally show "norm (gauss_term x m) \<le> \<bar>x\<bar> * (inverse (fact m) * (x\<^sup>2 / 2) ^ m)" .
qed

lemma cdf_series_sums: "(\<lambda>n. cdf_coeff n * x ^ n) sums (\<Sum>m. gauss_term x m)"
  unfolding cdf_coeff_odd_term
  by (rule sums_if') (rule summable_sums [OF summable_gauss_term])

lemma summable_cdf_series: "summable (\<lambda>n. cdf_coeff n * x ^ n)"
  using cdf_series_sums by (rule sums_summable)

lemma gauss_primitive_minus: "gauss_primitive (- x) = - gauss_primitive x"
proof -
  have "cdf_coeff n * (- x) ^ n = - (cdf_coeff n * x ^ n)" for n
    by (cases "even n") (simp_all add: cdf_coeff_def)
  then have "gauss_primitive (- x) = (\<Sum>n. - (cdf_coeff n * x ^ n))"
    by (simp add: gauss_primitive_def)
  also have "\<dots> = - gauss_primitive x"
    unfolding gauss_primitive_def by (rule suminf_minus) (rule summable_cdf_series)
  finally show ?thesis .
qed


lemma diffs_cdf_coeff:
  "diffs cdf_coeff n * x ^ n
     = (if even n then (- (x\<^sup>2) / 2) ^ (n div 2) /\<^sub>R fact (n div 2) else 0)"
proof (cases "even n")
  case True
  then obtain m where n: "n = 2 * m"
    by (auto elim: evenE)
  have "(- (x\<^sup>2) / 2) ^ m = ((- 1) * (x\<^sup>2 / 2)) ^ m"
    by simp
  also have "\<dots> = (- 1) ^ m * (x\<^sup>2 / 2) ^ m"
    by (rule power_mult_distrib)
  also have "\<dots> = (- 1) ^ m * x ^ (2 * m) / 2 ^ m"
    by (simp add: power_divide power_mult)
  finally have "(- (x\<^sup>2) / 2) ^ m = (- 1) ^ m * x ^ (2 * m) / 2 ^ m" .
  then show ?thesis
    by (simp add: n diffs_def cdf_coeff_def field_simps del: of_nat_Suc)
next
  case False
  then show ?thesis
    by (simp add: diffs_def cdf_coeff_def)
qed

lemma diffs_cdf_series_sums: "(\<lambda>n. diffs cdf_coeff n * x ^ n) sums exp (- (x\<^sup>2) / 2)"
proof -
  have "(\<lambda>n. if even n then (- (x\<^sup>2) / 2) ^ (n div 2) /\<^sub>R fact (n div 2)
              else (\<lambda>_. 0) ((n - 1) div 2)) sums (0 + exp (- (x\<^sup>2) / 2))"
    by (rule sums_if) (use exp_converges [of "- (x\<^sup>2) / 2"] in simp_all)
  then show ?thesis
    by (simp add: diffs_cdf_coeff)
qed

lemma DERIV_gauss_primitive: "DERIV gauss_primitive x :> exp (- (x\<^sup>2) / 2)"
proof -
  have "DERIV (\<lambda>x. \<Sum>n. cdf_coeff n * x ^ n) x :> (\<Sum>n. diffs cdf_coeff n * x ^ n)"
    by (rule termdiffs_strong_converges_everywhere) (rule summable_cdf_series)
  moreover have "(\<Sum>n. diffs cdf_coeff n * x ^ n) = exp (- (x\<^sup>2) / 2)"
    using diffs_cdf_series_sums by (rule sums_unique [symmetric])
  moreover have "gauss_primitive = (\<lambda>x. \<Sum>n. cdf_coeff n * x ^ n)"
    by (rule ext) (simp add: gauss_primitive_def)
  ultimately show ?thesis by simp
qed

lemma gauss_primitive_zero: "gauss_primitive 0 = 0"
  using gauss_primitive_minus [of 0] by simp

lemma DERIV_norm_cdf: "DERIV norm_cdf x :> norm_pdf x"
proof -
  have "DERIV (\<lambda>x. 1 / 2 + gauss_primitive x / sqrt (2 * pi)) x
      :> 0 + exp (- (x\<^sup>2) / 2) / sqrt (2 * pi)"
    by (intro DERIV_add DERIV_const DERIV_cdivide DERIV_gauss_primitive)
  moreover have "norm_cdf = (\<lambda>x. 1 / 2 + gauss_primitive x / sqrt (2 * pi))"
    by (rule ext) (simp add: norm_cdf_def)
  ultimately show ?thesis
    by (simp add: norm_pdf_def)
qed


section \<open>Evaluating the requests\<close>

lemma bs_atm_fields:
  "bs_atm = \<lparr> time_to_maturity = 1, strike = 100, current_price = 100, volatility = 0.2,
     interest_rate = 0.05, call_purchase_price = Some 8, put_purchase_price = Some 6,
     purchase_time_to_maturity = 1 \<rparr>"
  by (simp add: bs_atm_def init_def py_or_def)

lemma bs_held_fields:
  "bs_held = \<lparr> time_to_maturity = 1, strike = 100, current_price = 100, volatility = 0.2,
     interest_rate = 0.05, call_purchase_price = Some 8, put_purchase_price = Some 6,
     purchase_time_to_maturity = 1.5 \<rparr>"
  by (simp add: bs_held_def init_def py_or_def)

lemma bs_flat_fields:
  "bs_flat = \<lparr> time_to_maturity = 1, strike = 100, current_price = 100, volatility = 0.2,
     interest_rate = 0.05, call_purchase_price = None, put_purchase_price = None,
     purchase_time_to_maturity = 1 \<rparr>"
  by (simp add: bs_flat_def init_def py_or_def)

lemma bs_negative_volatility_fields:
  "bs_negative_volatility = \<lparr> time_to_maturity = 1, strike = 100, current_price = 100,
     volatility = - 0.2, interest_rate = 0.05, call_purchase_price = None,
     put_purchase_price = None, purchase_time_to_maturity = 1 \<rparr>"
  by (simp add: bs_negative_volatility_def init_def py_or_def)

lemma bs_expired_fields:
  "bs_expired = \<lparr> time_to_maturity = 0, strike = 100, current_price = 100,
     volatility = 0.2, interest_rate = 0.05, call_purchase_price = None,
     put_purchase_price = None, purchase_time_to_maturity = 0 \<rparr>"
  by (simp add: bs_expired_def init_def py_or_def hp_zero)



lemma bs_large_fields:
  "bs_large = \<lparr> time_to_maturity = 1, strike = 1000000000000, current_price = 1000000000000,
     volatility = 1, interest_rate = 0.05, call_purchase_price = None,
     put_purchase_price = None, purchase_time_to_maturity = 1 \<rparr>"
  by (simp add: bs_large_def init_def py_or_def)



section \<open>What \<^verbatim>\<open>calculate_prices\<close> raises and sets\<close>

lemma calculate_prices_cases:
  "strike bs = 0 \<Longrightarrow> calculate_prices bs = Inl ZeroDivisionError"
  "strike bs \<noteq> 0 \<Longrightarrow> overflow_threshold \<le> (volatility bs)\<^sup>2 \<Longrightarrow>
     calculate_prices bs = Inl OverflowError"
  "strike bs \<noteq> 0 \<Longrightarrow> (volatility bs)\<^sup>2 < overflow_threshold \<Longrightarrow>
     calculate_prices bs = Inr (calculate_prices_body bs)"
  by (simp_all add: calculate_prices_def py_truediv_def py_pow_def)


lemma body_fields:
  "call_price (calculate_prices_body bs)
     = (if numpy_finite bs then Known (hp (call_value bs)) else Unknown)"
  "put_price (calculate_prices_body bs)
     = (if numpy_finite bs then Known (hp (put_value bs)) else Unknown)"
  "call_pnl (calculate_prices_body bs)
     = fst (pnl_leg bs (call_price (calculate_prices_body bs)) (call_purchase_price bs))"
  "call_pnl_percentage (calculate_prices_body bs)
     = snd (pnl_leg bs (call_price (calculate_prices_body bs)) (call_purchase_price bs))"
  "put_pnl (calculate_prices_body bs)
     = fst (pnl_leg bs (put_price (calculate_prices_body bs)) (put_purchase_price bs))"
  "put_pnl_percentage (calculate_prices_body bs)
     = snd (pnl_leg bs (put_price (calculate_prices_body bs)) (put_purchase_price bs))"
  "call_delta (calculate_prices_body bs)
     = (if numpy_finite bs then Known (norm_cdf (d1 bs)) else Unknown)"
  "put_delta (calculate_prices_body bs)
     = (if numpy_finite bs then Known (- norm_cdf (- d1 bs)) else Unknown)"
  "gamma (calculate_prices_body bs)
     = (if numpy_finite bs
        then Known (norm_pdf (d1 bs)
          / (current_price bs * volatility bs * sqrt (time_to_maturity bs)))
        else Unknown)"
  by (simp_all add: calculate_prices_body_def Let_def split: prod.split)

lemma pnl_leg_cases:
  "pnl_leg bs price None = (Known 0, Known 0)"
  "short_circuit bs \<Longrightarrow> pnl_leg bs price (Some p) = (Known 0, Known 0)"
  "\<not> short_circuit bs \<Longrightarrow>
     pnl_leg bs (Known c) (Some p)
       = (Known (hp (c - p)), Known (if p \<noteq> 0 then hp (hp (c - p) / p * 100) else 0))"
  by (simp_all add: pnl_leg_def Let_def hp_zero)

lemma short_circuit_iff:
  "short_circuit bs \<longleftrightarrow>
     \<bar>float64 (float64 (time_to_maturity bs) - float64 (purchase_time_to_maturity bs))\<bar>
       < float64 (1 / 10 ^ 10)"
proof -
  have "0 < float64 (1 / 10 ^ 10)"
    by (rule float64_pos) simp
  then show ?thesis
    by (simp add: short_circuit_def float64_zero)
qed

lemma short_circuit_same:
  "purchase_time_to_maturity bs = time_to_maturity bs \<Longrightarrow> short_circuit bs"
proof -
  have "0 < float64 (1 / 10 ^ 10)"
    by (rule float64_pos) simp
  then show "purchase_time_to_maturity bs = time_to_maturity bs \<Longrightarrow> short_circuit bs"
    by (simp add: short_circuit_iff float64_zero)
qed


lemma float64_eval:
  assumes "0 < x" "2 powr of_int k \<le> x" "x < 2 powr (of_int k + 1)"
    and "round_half_even (x / 2 powr (of_int k - 52)) = m"
  shows "float64 x = of_int m * 2 powr (of_int k - 52)"
proof -
  have "\<lfloor>log 2 x\<rfloor> = k"
    using assms(1-3) by (subst floor_log_eq_powr_iff) simp_all
  then show ?thesis
    using assms(1,4) by (simp add: float64_def Let_def)
qed

lemma float64_minus: "float64 (- x) = - float64 x"
proof -
  have "round_half_even (- y) = - round_half_even y" for y
  proof -
    consider "y = of_int \<lfloor>y\<rfloor>" | "y \<noteq> of_int \<lfloor>y\<rfloor>" by blast
    then show ?thesis
    proof cases
      case 1
      then obtain j where "y = of_int j" ..
      then show ?thesis
        using round_half_even_of_int [of j] round_half_even_of_int [of "- j"] by simp
    next
      case 2
      then have fl: "\<lfloor>- y\<rfloor> = - \<lfloor>y\<rfloor> - 1"
        by (simp add: floor_minus ceiling_altdef)
      have frac: "y - of_int \<lfloor>y\<rfloor> < 1" "0 < y - of_int \<lfloor>y\<rfloor>"
        using 2 of_int_floor_le [of y] by linarith+
      show ?thesis
        unfolding round_half_even_def Let_def fl using frac
        by (auto simp add: algebra_simps)
    qed
  qed
  then show ?thesis
    by (simp add: float64_def Let_def)
qed


lemma bs_edge_fields:
  "bs_edge = \<lparr> time_to_maturity = 1 / 10, strike = 100, current_price = 100,
     volatility = 0.2, interest_rate = 0.05, call_purchase_price = Some 8,
     put_purchase_price = Some 6, purchase_time_to_maturity = 1000000001 / 10 ^ 10 \<rparr>"
  using hp_of_int_div [of 1000000000] hp_of_int_div [of 1000000001]
  by (simp add: bs_edge_def init_def py_or_def)

lemma float64_examples:
  "float64 (1 / 10) = 7205759403792794 / 2 ^ 56"
  "float64 (1000000001 / 10 ^ 10) = 7205759410998553 / 2 ^ 56"
  "float64 (7205759 / 2 ^ 56) = 7205759 / 2 ^ 56"
  "float64 (1 / 10 ^ 10) = 7737125245533627 / 2 ^ 86"
proof -
  have p: "(2::real) powr (- 4) = 1 / 2 ^ 4" "(2::real) powr (- 3) = 1 / 2 ^ 3"
    "(2::real) powr (- 56) = 1 / 2 ^ 56" "(2::real) powr (- 34) = 1 / 2 ^ 34"
    "(2::real) powr (- 33) = 1 / 2 ^ 33" "(2::real) powr (- 86) = 1 / 2 ^ 86"
    by (simp_all add: powr_minus inverse_eq_divide)
  have r1: "round_half_even (2 ^ 56 / 10) = 7205759403792794"
  proof -
    have "\<lfloor>2 ^ 56 / 10 :: real\<rfloor> = 7205759403792793"
      by (simp add: floor_eq_iff)
    then show ?thesis
      by (simp add: round_half_even_def)
  qed
  have r2: "round_half_even (1000000001 * 2 ^ 56 / 10 ^ 10) = 7205759410998553"
  proof -
    have "\<lfloor>1000000001 * 2 ^ 56 / 10 ^ 10 :: real\<rfloor> = 7205759410998553"
      by (simp add: floor_eq_iff)
    then show ?thesis
      by (simp add: round_half_even_def)
  qed
  have r3: "round_half_even (7205759 * 2 ^ 30) = 7205759 * 2 ^ 30"
    using round_half_even_of_int [of "7205759 * 2 ^ 30"] by simp
  have r4: "round_half_even (2 ^ 86 / 10 ^ 10) = 7737125245533627"
  proof -
    have "\<lfloor>2 ^ 86 / 10 ^ 10 :: real\<rfloor> = 7737125245533626"
      by (simp add: floor_eq_iff)
    then show ?thesis
      by (simp add: round_half_even_def)
  qed
  show "float64 (1 / 10) = 7205759403792794 / 2 ^ 56"
    using float64_eval [of "1 / 10" "- 4" 7205759403792794] r1 by (simp add: p)
  show "float64 (1000000001 / 10 ^ 10) = 7205759410998553 / 2 ^ 56"
    using float64_eval [of "1000000001 / 10 ^ 10" "- 4" 7205759410998553] r2 by (simp add: p)
  show "float64 (7205759 / 2 ^ 56) = 7205759 / 2 ^ 56"
    using float64_eval [of "7205759 / 2 ^ 56" "- 34" "7205759 * 2 ^ 30"] r3 by (simp add: p)
  show "float64 (1 / 10 ^ 10) = 7737125245533627 / 2 ^ 86"
    using float64_eval [of "1 / 10 ^ 10" "- 34" 7737125245533627] r4 by (simp add: p)
qed

text \<open>
  One unit of the tenth decimal apart, the stored doubles of \<open>0.1\<close> and \<open>0.1000000001\<close>
  differ by less than the double \<^verbatim>\<open>1e-10\<close>: the guard holds.
\<close>

lemma short_circuit_edge: "short_circuit bs_edge"
proof -
  have fields: "time_to_maturity bs_edge = 1 / 10"
    "purchase_time_to_maturity bs_edge = 1000000001 / 10 ^ 10"
    by (simp_all add: bs_edge_fields)
  have d: "float64 (1 / 10) - float64 (1000000001 / 10 ^ 10) = - (7205759 / 2 ^ 56)"
    by (simp only: float64_examples)
  have "float64 (- (7205759 / 2 ^ 56)) = - (7205759 / 2 ^ 56)"
    by (simp only: float64_minus float64_examples(3))
  then have "\<bar>float64 (float64 (1 / 10) - float64 (1000000001 / 10 ^ 10))\<bar>
      = 7205759 / 2 ^ 56"
    by (simp only: d) simp
  moreover have "(7205759 :: real) / 2 ^ 56 < 7737125245533627 / 2 ^ 86"
    by simp
  ultimately show ?thesis
    unfolding short_circuit_iff fields float64_examples(4) by (simp only:)
qed

section \<open>Risk metrics\<close>

text \<open>
  C6. For every request, \<^verbatim>\<open>calculate_risk_metrics\<close> sets \<open>max_call_loss\<close> to the absolute
  value of the stored call purchase price when one is supplied and to \<open>0\<close> otherwise, and
  \<open>max_put_loss\<close> likewise from the put purchase price. The rounding of line 100 changes
  nothing, the stored price being rounded already.
\<close>

theorem max_loss_identity:
  "(let bs = init T K S v r cpp ppp ptm; m = calculate_risk_metrics bs
    in max_call_loss m = (case call_purchase_price bs of Some p \<Rightarrow> \<bar>p\<bar> | None \<Rightarrow> 0)
     \<and> max_put_loss m = (case put_purchase_price bs of Some p \<Rightarrow> \<bar>p\<bar> | None \<Rightarrow> 0)
     \<and> (call_purchase_price bs = None) = (cpp = None)
     \<and> (put_purchase_price bs = None) = (ppp = None))"
  by (cases cpp; cases ppp)
    (simp_all add: init_def calculate_risk_metrics_def hp_abs_hp hp_zero)

text \<open>
  C7. For every request, \<open>max_call_gain\<close> is positive infinity, a value different from
  every finite one, when a call purchase price is supplied and \<open>0\<close> otherwise;
  \<open>max_put_gain\<close> is the stored strike minus the stored put purchase price when one is
  supplied and \<open>0\<close> otherwise.
\<close>

theorem max_gain_identity:
  "(let bs = init T K S v r cpp ppp ptm; m = calculate_risk_metrics bs
    in max_call_gain m = (case cpp of Some p \<Rightarrow> PosInf | None \<Rightarrow> Fin 0)
     \<and> (\<forall>x. PosInf \<noteq> Fin x)
     \<and> max_put_gain m = (case put_purchase_price bs of Some p \<Rightarrow> strike bs - p | None \<Rightarrow> 0)
     \<and> (put_purchase_price bs = None) = (ppp = None))"
  by (cases cpp; cases ppp)
    (simp_all add: init_def calculate_risk_metrics_def hp_minus_hp)

text \<open>
  C8. For every request, \<open>call_breakeven\<close> is the stored strike plus the stored call
  purchase price and \<open>put_breakeven\<close> the stored strike minus the stored put purchase
  price, an absent purchase price counting as \<open>0\<close>.
\<close>

theorem breakeven_identity:
  "(let bs = init T K S v r cpp ppp ptm; m = calculate_risk_metrics bs
    in call_breakeven m = strike bs + (case call_purchase_price bs of Some p \<Rightarrow> p | None \<Rightarrow> 0)
     \<and> put_breakeven m = strike bs - (case put_purchase_price bs of Some p \<Rightarrow> p | None \<Rightarrow> 0))"
  by (cases cpp; cases ppp)
    (auto simp add: init_def calculate_risk_metrics_def py_or_def hp_plus_hp hp_minus_hp
      hp_idem)

lemma small_square:
  fixes v :: real
  shows "1 < overflow_threshold" and "\<bar>v\<bar> \<le> 1 \<Longrightarrow> v\<^sup>2 < overflow_threshold"
proof -
  show one: "1 < overflow_threshold"
    by (simp add: overflow_threshold_def)
  assume "\<bar>v\<bar> \<le> 1"
  then have "v\<^sup>2 \<le> 1"
    by (simp add: abs_square_le_1)
  with one show "v\<^sup>2 < overflow_threshold"
    by linarith
qed

lemma fixtures_return:
  "calculate_prices bs_atm = Inr (calculate_prices_body bs_atm)"
  "calculate_prices bs_held = Inr (calculate_prices_body bs_held)"
  "calculate_prices bs_flat = Inr (calculate_prices_body bs_flat)"
  "calculate_prices bs_negative_volatility = Inr (calculate_prices_body bs_negative_volatility)"
  "calculate_prices bs_expired = Inr (calculate_prices_body bs_expired)"
  "calculate_prices bs_large = Inr (calculate_prices_body bs_large)"
  by (rule calculate_prices_cases(3);
      simp add: small_square bs_atm_fields bs_held_fields bs_flat_fields
        bs_negative_volatility_fields bs_expired_fields bs_large_fields)+

section \<open>Validation\<close>




section \<open>The short-circuit\<close>

text \<open>
  C3. The specification calls the branch of lines 59-62 and 75-78 unreachable. On the
  repository's own fixture \<open>bs_atm\<close>, a call bought at 8 and a put bought at 6 with no
  purchase time given, the guard holds and both legs get a PnL and a PnL percentage of
  \<open>0\<close>.
\<close>

theorem short_circuit_taken:
  "call_purchase_price bs_atm = Some 8 \<and> put_purchase_price bs_atm = Some 6
   \<and> short_circuit bs_atm
   \<and> calculate_prices bs_atm = Inr (calculate_prices_body bs_atm)
   \<and> call_pnl (calculate_prices_body bs_atm) = Known 0
   \<and> call_pnl_percentage (calculate_prices_body bs_atm) = Known 0
   \<and> put_pnl (calculate_prices_body bs_atm) = Known 0
   \<and> put_pnl_percentage (calculate_prices_body bs_atm) = Known 0"
proof -
  have sc: "short_circuit bs_atm"
    by (rule short_circuit_same) (simp add: bs_atm_fields)
  have "call_purchase_price bs_atm = Some 8" "put_purchase_price bs_atm = Some 6"
    by (simp_all add: bs_atm_fields)
  then show ?thesis
    using sc by (simp add: fixtures_return body_fields pnl_leg_cases)
qed

section \<open>Profit and loss\<close>






section \<open>Rounding of the stored fields\<close>





end
